theory Spec2Isabelle
  imports Main
begin

section \<open>Python values shared by the embedding\<close>

text \<open>
  Exceptions of the source are values. \<open>Exception\<close> is the plain exception raised by
  \<open>get_tenant\<close>; \<open>AttributeError\<close> and \<open>TypeError\<close> are what the interpreter
  raises on an attribute read of \<open>None\<close> and on a call of a value that is not callable;
  \<open>IntegrityError\<close> is the storage layer's answer to a violated uniqueness constraint.
\<close>

datatype py_error =
    Exception string
  | AttributeError string
  | TypeError string
  | IntegrityError string

text \<open>
  Every model instance has a class and a primary key, which is \<open>None\<close> until the instance
  has been stored. A table is the list of its stored instances.
\<close>

record model_obj =
  class_name :: string
  pk :: "nat option"

section \<open>django.db.models.Model.save\<close>

text \<open>
  \<open>super().save()\<close> of both mixins is the framework's \<open>Model.save\<close>. It is modelled once,
  over any model: a row other than the saved one that clashes with it on a unique column
  raises \<open>IntegrityError\<close>; an instance without primary key is inserted under a key not
  in use; an instance whose key is stored replaces that row, and one whose key is not stored
  is inserted under its key. The instance returned carries the key.
\<close>

definition next_id :: "('a model_obj_scheme) list \<Rightarrow> nat" where
  "next_id rows = Suc (foldr max (map (\<lambda>r. case pk r of None \<Rightarrow> 0 | Some k \<Rightarrow> k) rows) 0)"

definition Model_save ::
  "('a model_obj_scheme \<Rightarrow> 'a model_obj_scheme \<Rightarrow> bool) \<Rightarrow> ('a model_obj_scheme) list \<Rightarrow>
   'a model_obj_scheme \<Rightarrow> py_error + ('a model_obj_scheme \<times> ('a model_obj_scheme) list)" where
  "Model_save clash rows self =
     (if \<exists>r \<in> set rows. pk r \<noteq> pk self \<and> clash r self
      then Inl (IntegrityError ''duplicate key value violates unique constraint'')
      else (case pk self of
              None \<Rightarrow>
                (let self' = self\<lparr>pk := Some (next_id rows)\<rparr> in Inr (self', rows @ [self']))
            | Some k \<Rightarrow>
                (if \<exists>r \<in> set rows. pk r = Some k
                 then Inr (self, map (\<lambda>r. if pk r = Some k then self else r) rows)
                 else Inr (self, rows @ [self]))))"

section \<open>get\_tenant\<close>

text \<open>
  The tenant model's instances, and whatever else is bound to the connection: an object
  with a class, a \<open>schema_name\<close> and a \<open>domain_url\<close>.
\<close>

record tenant_obj = model_obj +
  domain_url :: string
  schema_name :: string

text \<open>
  \<open>get_tenant_model()\<close> lives in \<open>utils\<close>, outside the sources at hand; the class it
  returns is a parameter: its name and the names of its subclasses.
\<close>

record tenant_model =
  model_name :: string
  model_subclasses :: "string list"

record connection =
  tenant_of :: "tenant_obj option"

definition isinstance :: "tenant_obj \<Rightarrow> tenant_model \<Rightarrow> bool" where
  "isinstance obj model = (class_name obj \<in> set (model_name model # model_subclasses model))"

text \<open>
  \<open>model(schema_name=...)\<close>: a fresh instance of the model; the fields not given take the
  defaults of their columns (no primary key, the empty string).
\<close>

definition model_init :: "tenant_model \<Rightarrow> string \<Rightarrow> tenant_obj" where
  "model_init model s = \<lparr>class_name = model_name model, pk = None, domain_url = [], schema_name = s\<rparr>"

definition get_tenant :: "tenant_model \<Rightarrow> connection \<Rightarrow> py_error + tenant_obj" where
  "get_tenant model conn =
     (case tenant_of conn of
        None \<Rightarrow>
          Inl (Exception ''No tenant configured in db connection, connection.tenant is none'')
      | Some tenant \<Rightarrow>
          Inr (if isinstance tenant model then tenant
               else model_init model (schema_name tenant)))"

section \<open>TenantQueryset.delete\<close>

text \<open>
  \<open>obj.delete()\<close> is the entity's own delete: it changes the store and returns \<open>None\<close> or
  a pair of a count and a dictionary of counts per table, or raises. It is a parameter.
  \<open>counter_dict.update(d)\<close> is \<open>counter_dict ++ d\<close>: the entries of \<open>d\<close> replace those
  of \<open>counter_dict\<close> under the same key.
\<close>

type_synonym delete_outcome = "int \<times> (string \<rightharpoonup> int)"

fun delete_loop ::
  "('obj \<Rightarrow> 'db \<Rightarrow> (py_error + delete_outcome option) \<times> 'db) \<Rightarrow> 'obj list \<Rightarrow>
   int \<Rightarrow> (string \<rightharpoonup> int) \<Rightarrow> 'db \<Rightarrow> (py_error + delete_outcome) \<times> 'db" where
  "delete_loop obj_delete [] counter counter_dict db = (Inr (counter, counter_dict), db)"
| "delete_loop obj_delete (obj # objs) counter counter_dict db =
     (case obj_delete obj db of
        (Inl e, db') \<Rightarrow> (Inl e, db')
      | (Inr None, db') \<Rightarrow> delete_loop obj_delete objs counter counter_dict db'
      | (Inr (Some (current_counter, current_counter_dict)), db') \<Rightarrow>
          delete_loop obj_delete objs (counter + current_counter)
            (counter_dict ++ current_counter_dict) db')"

definition TenantQueryset_delete ::
  "('obj \<Rightarrow> 'db \<Rightarrow> (py_error + delete_outcome option) \<times> 'db) \<Rightarrow> 'obj list \<Rightarrow> 'db \<Rightarrow>
   (py_error + delete_outcome option) \<times> 'db" where
  "TenantQueryset_delete obj_delete objs db =
     (case delete_loop obj_delete objs 0 Map.empty db of
        (Inl e, db') \<Rightarrow> (Inl e, db')
      | (Inr (counter, counter_dict), db') \<Rightarrow>
          (Inr (if counter \<noteq> 0 then Some (counter, counter_dict) else None), db'))"

text \<open>
  The aggregation in the specification's words: the counts of one table are added.
\<close>

definition merge_detail :: "(string \<rightharpoonup> int) \<Rightarrow> (string \<rightharpoonup> int) \<Rightarrow> (string \<rightharpoonup> int)" where
  "merge_detail a b =
     (\<lambda>table. case a table of
                 None \<Rightarrow> b table
               | Some n \<Rightarrow> (case b table of None \<Rightarrow> Some n | Some m \<Rightarrow> Some (n + m)))"

section \<open>TenantMixin.save\<close>

datatype signal = Post_schema_sync (sender: string) (payload: tenant_obj)

text \<open>\<open>domain_url\<close> and \<open>schema_name\<close> are unique columns of the tenant table.\<close>

definition tenant_clash :: "tenant_obj \<Rightarrow> tenant_obj \<Rightarrow> bool" where
  "tenant_clash r self = (domain_url r = domain_url self \<or> schema_name r = schema_name self)"

text \<open>
  The save returns the instance, the table and the signals sent. The test of the primary
  key stands after \<open>super().save()\<close>, as in the source.
\<close>

definition TenantMixin_save ::
  "tenant_obj list \<Rightarrow> tenant_obj \<Rightarrow> py_error + (tenant_obj \<times> tenant_obj list \<times> signal list)" where
  "TenantMixin_save rows self =
     (case Model_save tenant_clash rows self of
        Inl e \<Rightarrow> Inl e
      | Inr (self', rows') \<Rightarrow>
          Inr (self', rows',
               if pk self' = None then [Post_schema_sync ''TenantMixin'' self'] else []))"

section \<open>MultitenantMixin.check\<close>

text \<open>
  The model metadata the checks read: \<open>cls._meta\<close> with its object name, whether the model
  was created automatically, its fields and its \<open>unique_together\<close>. A field has a name, a
  class, and the flags \<open>primary_key\<close> and \<open>unique\<close> (false where the attribute is
  missing, as \<open>getattr(field, ..., False)\<close> reads it). A many-to-many field carries the
  metadata of its through model, \<open>m2m_field.remote_field.through._meta\<close>.
\<close>

datatype field_class =
    PlainField
  | ForeignKey
  | RLSForeignKey
  | ManyToManyField model_meta
and model_meta =
    Meta (object_name: string) (auto_created: bool) (get_fields: "field list")
      (unique_together: "string list list")
and field =
    Field (name: string) (field_class: field_class) (primary_key: bool) (unique: bool)

datatype severity = Warning | Critical

record CheckMessage =
  level :: severity
  msg :: string
  hint :: "string option"
  msg_obj :: "string option"
  msg_id :: string

text \<open>
  \<open>ForeignKey\<close>, \<open>RLSForeignKey\<close> (a foreign key, by its name and by the specification's
  "tenant-foreign-key type") and \<open>ManyToManyField\<close> are the \<open>RelatedField\<close> classes.
\<close>

fun is_RLSForeignKey :: "field \<Rightarrow> bool" where
  "is_RLSForeignKey (Field n RLSForeignKey p u) = True"
| "is_RLSForeignKey (Field n c p u) = False"

fun is_RelatedField :: "field \<Rightarrow> bool" where
  "is_RelatedField (Field n PlainField p u) = False"
| "is_RelatedField (Field n c p u) = True"

definition get_tenant_field :: "model_meta \<Rightarrow> field option" where
  "get_tenant_field cls =
     (let all_fields = get_fields cls;
          tenant_fields = filter (\<lambda>field. name field = ''tenant'') all_fields
      in case tenant_fields of [] \<Rightarrow> None | f # fs \<Rightarrow> Some f)"

text \<open>
  The second branch of the source calls \<open>checks.WARNING\<close>. In \<open>django.core.checks\<close> that
  name is the integer level 30 (the message class is \<open>checks.Warning\<close>, which the other
  checks of this file call), and calling an integer raises \<open>TypeError\<close>.
\<close>

definition run_check_tenant_field :: "model_meta \<Rightarrow> py_error + CheckMessage list" where
  "run_check_tenant_field cls =
     (let tenant_field = get_tenant_field cls;
          oname = object_name cls
      in case tenant_field of
           None \<Rightarrow>
             Inr [\<lparr>level = Critical,
                   msg = ''tenant field not present in '' @ oname,
                   hint = None,
                   msg_obj = Some oname,
                   msg_id = ''tenant_schemas.'' @ oname @ ''.tenant_field.C001''\<rparr>]
         | Some f \<Rightarrow>
             if \<not> is_RLSForeignKey f
             then Inl (TypeError ''int object is not callable'')
             else Inr [])"

fun m2m_warnings :: "string \<Rightarrow> field \<Rightarrow> CheckMessage list" where
  "m2m_warnings cls_name (Field m2m_name (ManyToManyField through) p u) =
     (let through_all_fields = get_fields through;
          through_tenant_fields = filter (\<lambda>field. name field = ''tenant'') through_all_fields;
          through_tenant_field =
            (case through_tenant_fields of [] \<Rightarrow> None | f # fs \<Rightarrow> Some f);
          through_object_name = object_name through;
          auto_or_manual_model = (if auto_created through then ''auto-created'' else ''manual'')
      in case through_tenant_field of
           None \<Rightarrow>
             [\<lparr>level = Warning,
               msg = ''tenant field not present in Many2Many '' @ auto_or_manual_model
                     @ '' model: '' @ through_object_name,
               hint = Some (''Use custom defined model for through property in Many2Many field ''
                     @ cls_name @ ''.'' @ m2m_name @ '' using MultitenantMixin ''
                     @ ''in the model definition''),
               msg_obj = None,
               msg_id = ''tenant_schemas.'' @ through_object_name @ ''.m2m_field.W001''\<rparr>]
         | Some f \<Rightarrow>
             if \<not> is_RLSForeignKey f
             then [\<lparr>level = Warning,
                    msg = ''tenant field isn't instance of RLSForeignKey in ''
                          @ through_object_name,
                    hint = None,
                    msg_obj = None,
                    msg_id = ''tenant_schemas.'' @ through_object_name @ ''.m2m_field.W002''\<rparr>]
             else [])"
| "m2m_warnings cls_name (Field n c p u) = []"

definition run_check_m2m_fields :: "model_meta \<Rightarrow> CheckMessage list" where
  "run_check_m2m_fields cls = concat (map (m2m_warnings (object_name cls)) (get_fields cls))"

text \<open>
  How an f-string prints a tuple of names: \<open>('a', 'b')\<close>, and \<open>('a',)\<close> for one name.
\<close>

definition repr_str :: "string \<Rightarrow> string" where
  "repr_str s = [CHR 0x27] @ s @ [CHR 0x27]"

fun repr_items :: "string list \<Rightarrow> string" where
  "repr_items [] = []"
| "repr_items [x] = repr_str x"
| "repr_items (x # xs) = repr_str x @ '', '' @ repr_items xs"

definition repr_tuple :: "string list \<Rightarrow> string" where
  "repr_tuple xs =
     (case xs of
        [x] \<Rightarrow> ''('' @ repr_str x @ '',)''
      | _ \<Rightarrow> ''('' @ repr_items xs @ '')'')"

text \<open>
  The loop over \<open>cls._meta.unique_together\<close>. Each round reads \<open>tenant_field.name\<close>; on
  \<open>None\<close> that read raises \<open>AttributeError\<close>.
\<close>

fun unique_together_loop ::
  "field option \<Rightarrow> string \<Rightarrow> string list list \<Rightarrow> CheckMessage list \<Rightarrow>
   py_error + CheckMessage list" where
  "unique_together_loop tenant_field oname [] warnings = Inr warnings"
| "unique_together_loop tenant_field oname (ut # uts) warnings =
     (case tenant_field of
        None \<Rightarrow> Inl (AttributeError ''NoneType object has no attribute name'')
      | Some f \<Rightarrow>
          unique_together_loop tenant_field oname uts
            (if name f \<notin> set ut
             then warnings @
               [\<lparr>level = Warning,
                 msg = ''tenant field isn't in unique_together in '' @ oname @ '': ''
                       @ repr_tuple ut,
                 hint = None,
                 msg_obj = None,
                 msg_id = ''tenant_schemas.'' @ oname
                       @ ''.unique_together_without_tenant.W001''\<rparr>]
             else warnings))"

definition run_check_unique_together :: "model_meta \<Rightarrow> py_error + CheckMessage list" where
  "run_check_unique_together cls =
     (if unique_together cls \<noteq> []
      then unique_together_loop (get_tenant_field cls) (object_name cls) (unique_together cls) []
      else Inr [])"

definition unique_warning :: "string \<Rightarrow> field \<Rightarrow> CheckMessage list" where
  "unique_warning oname field =
     (if \<not> is_RelatedField field \<and> \<not> primary_key field \<and> unique field
      then [\<lparr>level = Warning,
             msg = ''Field '' @ name field @ '' marked as unique in '' @ oname
                   @ ''. Must use unique together with the tenant_id.'',
             hint = None,
             msg_obj = None,
             msg_id = ''tenant_schemas.'' @ oname @ ''.unique.W001''\<rparr>]
      else [])"

definition run_check_uniques :: "model_meta \<Rightarrow> CheckMessage list" where
  "run_check_uniques cls = concat (map (unique_warning (object_name cls)) (get_fields cls))"

text \<open>
  \<open>check\<close>: the framework's own messages (\<open>super().check()\<close>, a parameter) extended by the
  four checks in the source's order; an exception of one of them ends the check.
\<close>

definition check :: "CheckMessage list \<Rightarrow> model_meta \<Rightarrow> py_error + CheckMessage list" where
  "check super_check cls =
     (case run_check_tenant_field cls of
        Inl e \<Rightarrow> Inl e
      | Inr tenant_field_errors \<Rightarrow>
          (let m2m_errors = run_check_m2m_fields cls
           in case run_check_unique_together cls of
                Inl e \<Rightarrow> Inl e
              | Inr unique_together_errors \<Rightarrow>
                  Inr (super_check @ tenant_field_errors @ m2m_errors
                       @ unique_together_errors @ run_check_uniques cls)))"

section \<open>DomainMixin.save\<close>

text \<open>
  A domain record: its \<open>domain\<close> (a unique column), the primary key of its tenant and the
  flag \<open>is_primary\<close>.
\<close>

record domain_obj = model_obj +
  domain :: string
  tenant :: nat
  is_primary :: bool

definition domain_clash :: "domain_obj \<Rightarrow> domain_obj \<Rightarrow> bool" where
  "domain_clash r self = (domain r = domain self)"

text \<open>
  \<open>domain_list\<close> is a lazy queryset, the condition
  \<open>filter(tenant=self.tenant, is_primary=True).exclude(pk=self.pk)\<close>; \<open>exists\<close> and
  \<open>update\<close> run it against the table at the moment they are called.
\<close>

definition domain_list :: "domain_obj \<Rightarrow> domain_obj \<Rightarrow> bool" where
  "domain_list self r = (tenant r = tenant self \<and> is_primary r \<and> pk r \<noteq> pk self)"

definition qs_exists :: "domain_obj list \<Rightarrow> (domain_obj \<Rightarrow> bool) \<Rightarrow> bool" where
  "qs_exists rows q = (filter q rows \<noteq> [])"

definition qs_update_is_primary ::
  "domain_obj list \<Rightarrow> (domain_obj \<Rightarrow> bool) \<Rightarrow> bool \<Rightarrow> domain_obj list" where
  "qs_update_is_primary rows q v = map (\<lambda>r. if q r then r\<lparr>is_primary := v\<rparr> else r) rows"

text \<open>
  The body of \<open>save\<close> returns the states of the table it passes through: the table after
  the demotion and the table after \<open>super().save()\<close>.
\<close>

definition DomainMixin_save_body ::
  "domain_obj list \<Rightarrow> domain_obj \<Rightarrow> py_error + (domain_obj \<times> domain_obj list \<times> domain_obj list)" where
  "DomainMixin_save_body rows self =
     (let self1 = self\<lparr>is_primary := is_primary self \<or> \<not> qs_exists rows (domain_list self)\<rparr>;
          rows1 = (if is_primary self1
                   then qs_update_is_primary rows (domain_list self) False
                   else rows)
      in case Model_save domain_clash rows1 self1 of
           Inl e \<Rightarrow> Inl e
         | Inr (self2, rows2) \<Rightarrow> Inr (self2, rows1, rows2))"

text \<open>
  \<open>@transaction.atomic\<close>: an exception leaves the table as it was; otherwise the last
  state is committed. The result is the outcome and the committed table.
\<close>

definition DomainMixin_save ::
  "domain_obj list \<Rightarrow> domain_obj \<Rightarrow> (py_error + domain_obj) \<times> domain_obj list" where
  "DomainMixin_save rows self =
     (case DomainMixin_save_body rows self of
        Inl e \<Rightarrow> (Inl e, rows)
      | Inr (self2, rows1, rows2) \<Rightarrow> (Inr self2, rows2))"

text \<open>
  The tables another connection can read while a save runs: the committed table before it
  and the committed table after it.
\<close>

definition observable_states :: "domain_obj list \<Rightarrow> domain_obj \<Rightarrow> domain_obj list list" where
  "observable_states rows self = [rows, snd (DomainMixin_save rows self)]"

text \<open>
  A stored table: every row has a primary key and no two rows share one.
\<close>

definition stored :: "domain_obj list \<Rightarrow> bool" where
  "stored rows = ((\<forall>r \<in> set rows. pk r \<noteq> None) \<and> distinct (map pk rows))"

text \<open>
  The invariant of the primary domain: a tenant has at most one primary domain, and a
  tenant that has a domain has a primary one.
\<close>

definition primaries :: "domain_obj list \<Rightarrow> nat \<Rightarrow> domain_obj list" where
  "primaries rows t = filter (\<lambda>r. tenant r = t \<and> is_primary r) rows"

definition at_most_one_primary :: "domain_obj list \<Rightarrow> bool" where
  "at_most_one_primary rows = (\<forall>r \<in> set rows. length (primaries rows (tenant r)) \<le> 1)"

definition has_primary :: "domain_obj list \<Rightarrow> bool" where
  "has_primary rows = (\<forall>r \<in> set rows. primaries rows (tenant r) \<noteq> [])"

definition primary_invariant :: "domain_obj list \<Rightarrow> bool" where
  "primary_invariant rows = (at_most_one_primary rows \<and> has_primary rows)"

text \<open>
  The save takes the primary domain of the tenant \<open>t\<close> away: the record saved is stored as
  the primary domain of \<open>t\<close>, and it is saved with another tenant.
\<close>

definition takes_primary_from :: "domain_obj list \<Rightarrow> domain_obj \<Rightarrow> nat \<Rightarrow> bool" where
  "takes_primary_from rows self t =
     (\<exists>r \<in> set rows. pk r = pk self \<and> is_primary r \<and> tenant r = t \<and> tenant self \<noteq> t)"

section \<open>Concrete inputs\<close>

definition example_model :: tenant_model where
  "example_model = \<lparr>model_name = ''Client'', model_subclasses = []\<rparr>"

definition fake_tenant :: tenant_obj where
  "fake_tenant = \<lparr>class_name = ''FakeTenant'', pk = Some 7, domain_url = ''a.example.com'',
                  schema_name = ''acme''\<rparr>"

definition stored_tenant :: tenant_obj where
  "stored_tenant = \<lparr>class_name = ''Client'', pk = Some 3, domain_url = ''b.example.com'',
                    schema_name = ''bolt''\<rparr>"

definition new_tenant :: tenant_obj where
  "new_tenant = \<lparr>class_name = ''Client'', pk = None, domain_url = ''acme.example.com'',
                 schema_name = ''acme''\<rparr>"

text \<open>
  An entity whose delete returns what the entity holds; the store counts the deletes run.
\<close>

definition entity_delete ::
  "(py_error + delete_outcome option) \<Rightarrow> nat \<Rightarrow> (py_error + delete_outcome option) \<times> nat" where
  "entity_delete obj db = (obj, Suc db)"

definition one_client :: "py_error + delete_outcome option" where
  "one_client = Inr (Some (1, [''customers.Client'' \<mapsto> 1]))"

definition wrong_type_model :: model_meta where
  "wrong_type_model =
     Meta ''Invoice'' False
       [Field ''id'' PlainField True True, Field ''tenant'' ForeignKey False False] []"

definition no_tenant_model :: model_meta where
  "no_tenant_model =
     Meta ''Order'' False
       [Field ''id'' PlainField True True, Field ''number'' PlainField False False,
        Field ''year'' PlainField False False]
       [[''number'', ''year'']]"

definition customer_model :: model_meta where
  "customer_model =
     Meta ''Customer'' False
       [Field ''id'' PlainField True True, Field ''email'' PlainField False False,
        Field ''region'' PlainField False False]
       [[''email'', ''region'']]"

text \<open>Domain records of the tenant 1, a new primary domain for it, and two new domains of
  the tenant 5, which has none.\<close>

definition dom_a :: domain_obj where
  "dom_a = \<lparr>class_name = ''Domain'', pk = Some 1, domain = ''a.example.com'', tenant = 1,
             is_primary = True\<rparr>"

definition dom_b :: domain_obj where
  "dom_b = \<lparr>class_name = ''Domain'', pk = Some 2, domain = ''b.example.com'', tenant = 1,
             is_primary = False\<rparr>"

definition dom_new :: domain_obj where
  "dom_new = \<lparr>class_name = ''Domain'', pk = None, domain = ''c.example.com'', tenant = 1,
               is_primary = True\<rparr>"

definition dom_first :: domain_obj where
  "dom_first = \<lparr>class_name = ''Domain'', pk = None, domain = ''a.example.com'', tenant = 5,
                 is_primary = False\<rparr>"

definition dom_second :: domain_obj where
  "dom_second = \<lparr>class_name = ''Domain'', pk = None, domain = ''b.example.com'', tenant = 5,
                  is_primary = False\<rparr>"

section \<open>Tenant resolution\<close>

text \<open>
  C7: with no tenant bound to the connection, \<open>get_tenant\<close> raises the exception that says
  so, whatever the configured model; it returns no tenant at all.
\<close>

theorem get_tenant_unbound:
  "tenant_of conn = None \<Longrightarrow>
   get_tenant model conn =
     Inl (Exception ''No tenant configured in db connection, connection.tenant is none'')"
  by (simp add: get_tenant_def)

theorem get_tenant_unbound_witness:
  "tenant_of \<lparr>tenant_of = None\<rparr> = None \<and>
   get_tenant example_model \<lparr>tenant_of = None\<rparr> =
     Inl (Exception ''No tenant configured in db connection, connection.tenant is none'')"
  using get_tenant_unbound [of "\<lparr>tenant_of = None\<rparr>" example_model] by simp

text \<open>
  C10: with a tenant bound, \<open>get_tenant\<close> returns an instance of the configured model: the
  bound object itself when it is one, and otherwise a fresh instance that has the bound
  object's \<open>schema_name\<close> and nothing else of it (no primary key, the default
  \<open>domain_url\<close>).
\<close>

theorem get_tenant_bound:
  "tenant_of conn = Some t \<Longrightarrow>
   (\<exists>r. get_tenant model conn = Inr r \<and> isinstance r model \<and>
        (isinstance t model \<longrightarrow> r = t) \<and>
        (\<not> isinstance t model \<longrightarrow>
           r = \<lparr>class_name = model_name model, pk = None, domain_url = [],
                 schema_name = schema_name t\<rparr>))"
  by (simp add: get_tenant_def isinstance_def model_init_def)

theorem get_tenant_bound_witness:
  "tenant_of \<lparr>tenant_of = Some fake_tenant\<rparr> = Some fake_tenant \<and>
   \<not> isinstance fake_tenant example_model \<and>
   get_tenant example_model \<lparr>tenant_of = Some fake_tenant\<rparr> =
     Inr \<lparr>class_name = ''Client'', pk = None, domain_url = [], schema_name = ''acme''\<rparr> \<and>
   isinstance stored_tenant example_model \<and>
   get_tenant example_model \<lparr>tenant_of = Some stored_tenant\<rparr> = Inr stored_tenant"
  using get_tenant_bound [of "\<lparr>tenant_of = Some fake_tenant\<rparr>" fake_tenant example_model]
    get_tenant_bound [of "\<lparr>tenant_of = Some stored_tenant\<rparr>" stored_tenant example_model]
  by (auto simp add: fake_tenant_def stored_tenant_def example_model_def isinstance_def)

section \<open>Bulk delete\<close>

lemma delete_loop_append:
  "delete_loop f (xs @ ys) c d db =
     (case delete_loop f xs c d db of
        (Inl e, db') \<Rightarrow> (Inl e, db')
      | (Inr (c', d'), db') \<Rightarrow> delete_loop f ys c' d' db')"
proof (induction xs arbitrary: c d db)
  case Nil
  show ?case by simp
next
  case (Cons x xs)
  obtain res db1 where step: "f x db = (res, db1)" by (cases "f x db")
  show ?case
  proof (cases res)
    case (Inl e)
    with step show ?thesis by simp
  next
    case (Inr out)
    show ?thesis
    proof (cases out)
      case None
      with step Inr show ?thesis by (simp add: Cons.IH)
    next
      case (Some cd)
      obtain c1 d1 where "cd = (c1, d1)" by (cases cd)
      with step Inr Some show ?thesis by (simp add: Cons.IH)
    qed
  qed
qed

text \<open>
  C2, at a batch of two entities that each delete one row of the same table: the count is
  the sum, 2, but the dictionary holds 1 for the table, the entry of the last entity, where
  adding the counts per table gives 2.
\<close>

theorem delete_detail_overwritten:
  "TenantQueryset_delete entity_delete [one_client, one_client] 0 =
     (Inr (Some (2, [''customers.Client'' \<mapsto> 1])), 2) \<and>
   merge_detail [''customers.Client'' \<mapsto> 1] [''customers.Client'' \<mapsto> 1] ''customers.Client''
     = Some 2"
  by (simp add: TenantQueryset_delete_def entity_delete_def one_client_def merge_detail_def)

text \<open>
  C8: when the deletes of the entities before \<open>obj\<close> have run without raising and the
  delete of \<open>obj\<close> raises \<open>e\<close>, the bulk delete raises \<open>e\<close>, in the store as that delete left
  it: no outcome is returned, and the entities after \<open>obj\<close> are not reached.
\<close>

theorem delete_propagates_failure:
  assumes "delete_loop obj_delete before 0 Map.empty db = (Inr partial, db1)"
    and "obj_delete obj db1 = (Inl e, db2)"
  shows "TenantQueryset_delete obj_delete (before @ obj # after) db = (Inl e, db2)"
proof -
  obtain c1 d1 where "partial = (c1, d1)" by (cases partial)
  with assms have "delete_loop obj_delete (before @ obj # after) 0 Map.empty db = (Inl e, db2)"
    by (simp add: delete_loop_append)
  then show ?thesis by (simp add: TenantQueryset_delete_def)
qed

theorem delete_propagates_failure_witness:
  "delete_loop entity_delete [one_client] 0 Map.empty 0
     = (Inr (1, [''customers.Client'' \<mapsto> 1]), 1) \<and>
   entity_delete (Inl (Exception ''boom'')) 1 = (Inl (Exception ''boom''), 2) \<and>
   TenantQueryset_delete entity_delete ([one_client] @ Inl (Exception ''boom'') # [one_client]) 0
     = (Inl (Exception ''boom''), 2)"
proof -
  have a: "delete_loop entity_delete [one_client] 0 Map.empty 0
     = (Inr (1, [''customers.Client'' \<mapsto> 1]), 1)"
    by (simp add: entity_delete_def one_client_def)
  have b: "entity_delete (Inl (Exception ''boom'')) 1 = (Inl (Exception ''boom''), 2)"
    by (simp add: entity_delete_def)
  have c: "TenantQueryset_delete entity_delete
             ([one_client] @ Inl (Exception ''boom'') # [one_client]) 0
           = (Inl (Exception ''boom''), 2)"
    by (rule delete_propagates_failure
          [where obj_delete = entity_delete and obj = "Inl (Exception ''boom'')"
             and before = "[one_client]", OF a b])
  from a b c show ?thesis by (intro conjI)
qed

section \<open>The first save of a tenant\<close>

lemma Model_save_pk:
  "Model_save clash rows self = Inr (self', rows') \<Longrightarrow> pk self' \<noteq> None"
  by (auto simp add: Model_save_def Let_def split: if_splits option.splits)

lemma TenantMixin_save_sends_nothing:
  "TenantMixin_save rows self = Inr (self', rows', signals) \<Longrightarrow> signals = []"
  by (auto simp add: TenantMixin_save_def split: sum.splits dest: Model_save_pk)

text \<open>
  C1, at the first save of a new tenant into an empty table: the tenant is stored under the
  key 1 and no signal is sent, since the primary key is read after the save has set it.
\<close>

theorem first_save_sends_no_signal:
  "TenantMixin_save [] new_tenant =
     Inr (new_tenant\<lparr>pk := Some 1\<rparr>, [new_tenant\<lparr>pk := Some 1\<rparr>], [])"
  by (simp add: TenantMixin_save_def Model_save_def next_id_def new_tenant_def Let_def)

section \<open>The model checks\<close>

lemma check_critical_without_unique_together:
  "get_tenant_field cls = None \<Longrightarrow> unique_together cls = [] \<Longrightarrow>
   \<exists>errors. check super_check cls = Inr errors \<and>
     \<lparr>level = Critical, msg = ''tenant field not present in '' @ object_name cls, hint = None,
       msg_obj = Some (object_name cls),
       msg_id = ''tenant_schemas.'' @ object_name cls @ ''.tenant_field.C001''\<rparr> \<in> set errors"
  by (simp add: check_def run_check_tenant_field_def run_check_unique_together_def Let_def)

text \<open>
  C3, at two models: one whose \<open>tenant\<close> field is a plain foreign key, where the check
  raises \<open>TypeError\<close>, and one without \<open>tenant\<close> field that declares a \<open>unique_together\<close>,
  where the check raises \<open>AttributeError\<close>. Neither returns a list of messages.
\<close>

theorem check_raises:
  "check [] wrong_type_model = Inl (TypeError ''int object is not callable'') \<and>
   check [] no_tenant_model = Inl (AttributeError ''NoneType object has no attribute name'')"
  by (simp add: check_def run_check_tenant_field_def get_tenant_field_def
      run_check_unique_together_def wrong_type_model_def no_tenant_model_def Let_def)

text \<open>
  C9, at a model without \<open>tenant\<close> field that declares a \<open>unique_together\<close>: the check of
  the tenant field yields the Critical message that names the model, and \<open>check\<close> raises
  \<open>AttributeError\<close> in the check of \<open>unique_together\<close>, so the message is not returned.
\<close>

theorem check_loses_critical:
  "run_check_tenant_field customer_model =
     Inr [\<lparr>level = Critical, msg = ''tenant field not present in Customer'', hint = None,
           msg_obj = Some ''Customer'',
           msg_id = ''tenant_schemas.Customer.tenant_field.C001''\<rparr>] \<and>
   check [] customer_model = Inl (AttributeError ''NoneType object has no attribute name'')"
  by (simp add: check_def run_check_tenant_field_def get_tenant_field_def
      run_check_unique_together_def customer_model_def Let_def)

section \<open>The storage model\<close>

lemma next_id_fresh: "r \<in> set rows \<Longrightarrow> pk r \<noteq> Some (next_id rows)"
proof -
  have "r \<in> set rows \<Longrightarrow> pk r = Some k \<Longrightarrow>
        k \<le> foldr max (map (\<lambda>r. case pk r of None \<Rightarrow> 0 | Some k \<Rightarrow> k) rows) 0" for k
    by (induction rows) (auto simp add: max_def)
  then show "r \<in> set rows \<Longrightarrow> pk r \<noteq> Some (next_id rows)"
    unfolding next_id_def by fastforce
qed

lemma Model_save_insert:
  assumes "pk self = None" and "Model_save clash rows self = Inr (self2, rows2)"
  shows "self2 = self\<lparr>pk := Some (next_id rows)\<rparr> \<and> rows2 = rows @ [self2]"
  using assms by (auto simp add: Model_save_def Let_def split: if_splits)

lemma Model_save_update:
  assumes "pk self = Some k" and "Model_save clash rows self = Inr (self2, rows2)"
  shows "self2 = self \<and>
         rows2 = (if \<exists>r \<in> set rows. pk r = Some k
                  then map (\<lambda>r. if pk r = Some k then self else r) rows
                  else rows @ [self])"
  using assms by (auto simp add: Model_save_def Let_def split: if_splits)

lemma Model_save_set:
  assumes "Model_save clash rows self = Inr (self2, rows2)"
  shows "set rows2 = insert self2 {r \<in> set rows. pk r \<noteq> pk self2}"
proof (cases "pk self")
  case None
  from Model_save_insert[OF None assms] next_id_fresh[of _ rows] show ?thesis by auto
next
  case (Some k)
  from Model_save_update[OF Some assms] Some show ?thesis by auto
qed

lemma Model_save_pks:
  assumes "Model_save clash rows self = Inr (self2, rows2)"
    and "\<forall>r \<in> set rows. pk r \<noteq> None" and "distinct (map pk rows)"
  shows "(\<forall>r \<in> set rows2. pk r \<noteq> None) \<and> distinct (map pk rows2)"
proof (cases "pk self")
  case None
  from Model_save_insert[OF None assms(1)] next_id_fresh[of _ rows] assms(2,3)
  show ?thesis by auto
next
  case (Some k)
  let ?f = "\<lambda>r. if pk r = Some k then self else r"
  have "map pk (map ?f rows) = map pk rows"
    using Some by (induction rows) auto
  then have d: "distinct (map pk (map ?f rows))"
    using assms(3) by (simp only:)
  have n: "\<forall>r \<in> set (map ?f rows). pk r \<noteq> None"
    using assms(2) Some by auto
  show ?thesis
  proof (cases "\<exists>r \<in> set rows. pk r = Some k")
    case True
    with Model_save_update[OF Some assms(1)] have "rows2 = map ?f rows" by simp
    with d n show ?thesis by (simp only:)
  next
    case False
    with Model_save_update[OF Some assms(1)] have "rows2 = rows @ [self]" by simp
    with False Some assms(2,3) show ?thesis by auto
  qed
qed

lemma Model_save_self:
  assumes "Model_save clash rows self = Inr (self2, rows2)"
  shows "\<exists>k. self2 = self\<lparr>pk := Some k\<rparr> \<and>
           (pk self \<noteq> None \<longrightarrow> pk self = Some k) \<and>
           (pk self = None \<longrightarrow> (\<forall>r \<in> set rows. pk r \<noteq> Some k))"
proof (cases "pk self")
  case None
  from Model_save_insert[OF None assms] next_id_fresh[of _ rows] None show ?thesis by auto
next
  case (Some k)
  from Model_save_update[OF Some assms] Some show ?thesis by auto
qed

lemma length_filter_le_1:
  "distinct xs \<Longrightarrow>
   (length (filter P xs) \<le> 1) = (\<forall>x \<in> set xs. \<forall>y \<in> set xs. P x \<and> P y \<longrightarrow> x = y)"
proof (induction xs)
  case Nil
  show ?case by simp
next
  case (Cons a xs)
  then show ?case by (auto simp add: filter_empty_conv)
qed

section \<open>The primary domain\<close>

lemma at_most_one_primary_iff:
  assumes "stored rows"
  shows "at_most_one_primary rows =
         (\<forall>x \<in> set rows. \<forall>y \<in> set rows.
            tenant x = tenant y \<and> is_primary x \<and> is_primary y \<longrightarrow> pk x = pk y)"
proof -
  from assms have d: "distinct rows" and inj: "inj_on pk (set rows)"
    by (simp_all add: stored_def distinct_map)
  have eq: "(x = y) = (pk x = pk y)" if "x \<in> set rows" "y \<in> set rows" for x y
    using inj that by (auto dest: inj_onD)
  have "at_most_one_primary rows =
        (\<forall>r \<in> set rows. \<forall>x \<in> set rows. \<forall>y \<in> set rows.
           (tenant x = tenant r \<and> is_primary x) \<and> (tenant y = tenant r \<and> is_primary y)
           \<longrightarrow> x = y)"
    unfolding at_most_one_primary_def primaries_def
    by (simp only: length_filter_le_1[OF d])
  also have "\<dots> = (\<forall>x \<in> set rows. \<forall>y \<in> set rows.
            tenant x = tenant y \<and> is_primary x \<and> is_primary y \<longrightarrow> pk x = pk y)"
    using eq by metis
  finally show ?thesis .
qed

lemma has_primary_iff:
  "has_primary rows =
   (\<forall>x \<in> set rows. \<exists>p \<in> set rows. tenant p = tenant x \<and> is_primary p)"
  unfolding has_primary_def primaries_def by (simp add: filter_empty_conv)

lemma qs_update_pks: "map pk (qs_update_is_primary rows q v) = map pk rows"
  unfolding qs_update_is_primary_def by (induction rows) auto

lemma qs_update_set:
  "set (qs_update_is_primary rows q v) = (\<lambda>r. if q r then r\<lparr>is_primary := v\<rparr> else r) ` set rows"
  unfolding qs_update_is_primary_def by simp

lemma DomainMixin_save_Inl:
  "DomainMixin_save rows self = (Inl e, rows2) \<Longrightarrow> rows2 = rows"
  by (auto simp add: DomainMixin_save_def split: sum.splits prod.splits)

lemma DomainMixin_save_Inr:
  assumes "DomainMixin_save rows self = (Inr self2, rows2)"
  shows "Model_save domain_clash
           (if is_primary self \<or> \<not> qs_exists rows (domain_list self)
            then qs_update_is_primary rows (domain_list self) False else rows)
           (self\<lparr>is_primary := is_primary self \<or> \<not> qs_exists rows (domain_list self)\<rparr>)
         = Inr (self2, rows2)"
  using assms
  by (auto simp add: DomainMixin_save_def DomainMixin_save_body_def Let_def
      split: sum.splits prod.splits)

lemma DomainMixin_save_rows:
  assumes st: "stored rows"
    and sv: "DomainMixin_save rows self = (Inr self2, rows2)"
    and p: "p = (is_primary self \<or> \<not> qs_exists rows (domain_list self))"
    and d: "d = (\<lambda>r. if p \<and> tenant r = tenant self \<and> is_primary r
                     then r\<lparr>is_primary := False\<rparr> else r)"
  shows "stored rows2"
    and "tenant self2 = tenant self"
    and "is_primary self2 = p"
    and "pk self \<noteq> None \<longrightarrow> pk self2 = pk self"
    and "pk self = None \<longrightarrow> (\<forall>r \<in> set rows. pk r \<noteq> pk self2)"
    and "set rows2 = insert self2 (d ` {r \<in> set rows. pk r \<noteq> pk self2})"
    and "\<exists>k. self2 = self\<lparr>is_primary := p, pk := Some k\<rparr>"
proof -
  define rows1 where "rows1 = (if p then qs_update_is_primary rows (domain_list self) False else rows)"
  define self1 where "self1 = self\<lparr>is_primary := p\<rparr>"
  define d1 where "d1 = (\<lambda>r. if p \<and> domain_list self r then r\<lparr>is_primary := False\<rparr> else r)"
  have ms: "Model_save domain_clash rows1 self1 = Inr (self2, rows2)"
    unfolding rows1_def self1_def p by (rule DomainMixin_save_Inr[OF sv])
  have pks1: "map pk rows1 = map pk rows"
    unfolding rows1_def by (simp add: qs_update_pks)
  have set1: "set rows1 = d1 ` set rows"
    unfolding rows1_def d1_def by (auto simp add: qs_update_set)
  have pk_d1: "pk (d1 r) = pk r" for r unfolding d1_def by simp
  have nn: "\<forall>r \<in> set rows. pk r \<noteq> None" and dist: "distinct (map pk rows)"
    using st by (simp_all add: stored_def)
  have nn1: "\<forall>r \<in> set rows1. pk r \<noteq> None"
    unfolding set1 using nn pk_d1 by simp
  have dist1: "distinct (map pk rows1)" using dist by (simp only: pks1)
  from Model_save_pks[OF ms nn1 dist1] show "stored rows2" by (simp add: stored_def)
  from Model_save_self[OF ms] obtain k where k: "self2 = self1\<lparr>pk := Some k\<rparr>"
    and kk: "pk self1 \<noteq> None \<longrightarrow> pk self1 = Some k"
    and kf: "pk self1 = None \<longrightarrow> (\<forall>r \<in> set rows1. pk r \<noteq> Some k)"
    by (elim exE conjE)
  have pk1: "pk self1 = pk self" unfolding self1_def by simp
  from k show "tenant self2 = tenant self" unfolding self1_def by simp
  from k show "is_primary self2 = p" unfolding self1_def by simp
  from k have pk2: "pk self2 = Some k" by simp
  from kk pk1 pk2 show k1: "pk self \<noteq> None \<longrightarrow> pk self2 = pk self" by simp
  from k show "\<exists>k. self2 = self\<lparr>is_primary := p, pk := Some k\<rparr>"
    unfolding self1_def by (intro exI)
  show k2: "pk self = None \<longrightarrow> (\<forall>r \<in> set rows. pk r \<noteq> pk self2)"
  proof (intro impI ballI)
    fix r assume none: "pk self = None" and r: "r \<in> set rows"
    from r have "d1 r \<in> set rows1" unfolding set1 by (rule imageI)
    with kf none pk1 have "pk (d1 r) \<noteq> Some k" by simp
    then show "pk r \<noteq> pk self2" by (simp add: pk_d1 pk2)
  qed
  have other: "pk r \<noteq> pk self" if "r \<in> set rows" "pk r \<noteq> pk self2" for r
    using that k1 nn by (cases "pk self") auto
  have dd: "d1 r = d r" if "r \<in> set rows" "pk r \<noteq> pk self2" for r
    using other[OF that] unfolding d1_def d by (simp add: domain_list_def)
  have "set rows2 = insert self2 {r \<in> set rows1. pk r \<noteq> pk self2}"
    by (rule Model_save_set[OF ms])
  also have "{r \<in> set rows1. pk r \<noteq> pk self2} = d1 ` {r \<in> set rows. pk r \<noteq> pk self2}"
    unfolding set1 using pk_d1 by auto
  also have "d1 ` {r \<in> set rows. pk r \<noteq> pk self2} = d ` {r \<in> set rows. pk r \<noteq> pk self2}"
    by (rule image_cong) (simp_all add: dd)
  finally show "set rows2 = insert self2 (d ` {r \<in> set rows. pk r \<noteq> pk self2})" .
qed

lemma save_preserves_at_most_one:
  assumes st: "stored rows" and amo: "at_most_one_primary rows"
    and sv: "DomainMixin_save rows self = (Inr self2, rows2)"
  shows "at_most_one_primary rows2"
proof -
  define p where "p = (is_primary self \<or> \<not> qs_exists rows (domain_list self))"
  define d :: "domain_obj \<Rightarrow> domain_obj" where "d = (\<lambda>r. if p \<and> tenant r = tenant self \<and> is_primary r
                          then r\<lparr>is_primary := False\<rparr> else r)"
  note facts = DomainMixin_save_rows[OF st sv p_def d_def]
  have st2: "stored rows2" by (rule facts(1))
  have s2: "tenant self2 = tenant self" "is_primary self2 = p"
    by (rule facts(2), rule facts(3))
  have d_tenant: "tenant (d r) = tenant r" for r unfolding d_def by simp
  have d_primary: "is_primary (d r) = (is_primary r \<and> \<not> (p \<and> tenant r = tenant self))" for r
    unfolding d_def by auto
  have d_pk: "pk (d r) = pk r" for r unfolding d_def by simp
  have mem: "x = self2 \<or> (\<exists>r \<in> set rows. pk r \<noteq> pk self2 \<and> x = d r)"
    if "x \<in> set rows2" for x
    using that unfolding facts(6) by blast
  have pre: "pk x = pk y"
    if "x \<in> set rows" "y \<in> set rows" "tenant x = tenant y" "is_primary x" "is_primary y"
    for x y
    using amo that unfolding at_most_one_primary_iff[OF st] by blast
  have "pk x = pk y"
    if x: "x \<in> set rows2" and y: "y \<in> set rows2" and t: "tenant x = tenant y"
      and px: "is_primary x" and py: "is_primary y" for x y
  proof -
    from mem[OF x] mem[OF y] show ?thesis
    proof (elim disjE bexE conjE)
      assume "x = self2" "y = self2" then show ?thesis by simp
    next
      fix r assume xs: "x = self2" and r: "r \<in> set rows" and yr: "y = d r"
      from xs px s2 have "p" by simp
      moreover from t xs yr s2 have "tenant r = tenant self" by (simp add: d_tenant)
      ultimately have "\<not> is_primary (d r)" by (simp add: d_primary)
      with py yr show ?thesis by simp
    next
      fix r assume ys: "y = self2" and r: "r \<in> set rows" and xr: "x = d r"
      from ys py s2 have "p" by simp
      moreover from t ys xr s2 have "tenant r = tenant self" by (simp add: d_tenant)
      ultimately have "\<not> is_primary (d r)" by (simp add: d_primary)
      with px xr show ?thesis by simp
    next
      fix r1 r2 assume r1: "r1 \<in> set rows" and r2: "r2 \<in> set rows"
        and xr: "x = d r1" and yr: "y = d r2"
      from xr px have p1: "is_primary r1" by (simp add: d_primary)
      from yr py have p2: "is_primary r2" by (simp add: d_primary)
      from t xr yr have "tenant r1 = tenant r2" by (simp add: d_tenant)
      from pre[OF r1 r2 this p1 p2] xr yr show ?thesis by (simp add: d_pk)
    qed
  qed
  then show ?thesis unfolding at_most_one_primary_iff[OF st2] by blast
qed

lemma save_keeps_primary:
  assumes st: "stored rows" and hp: "has_primary rows"
    and sv: "DomainMixin_save rows self = (Inr self2, rows2)"
    and x: "x \<in> set rows2"
  shows "primaries rows2 (tenant x) \<noteq> [] \<or> takes_primary_from rows self (tenant x)"
proof -
  define p where "p = (is_primary self \<or> \<not> qs_exists rows (domain_list self))"
  define d :: "domain_obj \<Rightarrow> domain_obj" where "d = (\<lambda>r. if p \<and> tenant r = tenant self \<and> is_primary r
                          then r\<lparr>is_primary := False\<rparr> else r)"
  note facts = DomainMixin_save_rows[OF st sv p_def d_def]
  have s2: "tenant self2 = tenant self" "is_primary self2 = p"
    by (rule facts(2), rule facts(3))
  have d_tenant: "tenant (d r) = tenant r" for r unfolding d_def by simp
  have d_other: "d r = r" if "tenant r \<noteq> tenant self \<or> \<not> p" for r
    using that unfolding d_def by auto
  have mem: "x = self2 \<or> (\<exists>r \<in> set rows. pk r \<noteq> pk self2 \<and> x = d r)"
    using x unfolding facts(6) by blast
  have self_in: "self2 \<in> set rows2" unfolding facts(6) by simp
  have kept: "d r \<in> set rows2" if "r \<in> set rows" "pk r \<noteq> pk self2" for r
    unfolding facts(6) using that by blast
  have found: "primaries rows2 t \<noteq> []" if "y \<in> set rows2" "tenant y = t" "is_primary y" for y t
    unfolding primaries_def using that by (auto simp add: filter_empty_conv)
  show ?thesis
  proof (cases "tenant x = tenant self")
    case True
    show ?thesis
    proof (cases p)
      case True
      with self_in s2 \<open>tenant x = tenant self\<close> found[of self2 "tenant x"]
      show ?thesis by simp
    next
      case False
      then have "qs_exists rows (domain_list self)" unfolding p_def by simp
      then obtain r0 where r0: "r0 \<in> set rows" and q: "domain_list self r0"
        unfolding qs_exists_def by (auto simp add: filter_empty_conv)
      from q have q': "tenant r0 = tenant self" "is_primary r0" "pk r0 \<noteq> pk self"
        by (simp_all add: domain_list_def)
      have "pk r0 \<noteq> pk self2"
      proof (cases "pk self")
        case None with facts(5) r0 show ?thesis by simp
      next
        case (Some k) with facts(4) q'(3) show ?thesis by simp
      qed
      from kept[OF r0 this] False have "r0 \<in> set rows2" by (simp add: d_other)
      with q' \<open>tenant x = tenant self\<close> found[of r0 "tenant x"] show ?thesis by simp
    qed
  next
    case False
    with mem s2 obtain r where r: "r \<in> set rows" and pr: "pk r \<noteq> pk self2"
      and xr: "x = d r" by auto
    from xr False have tx: "tenant r = tenant x" "tenant r \<noteq> tenant self"
      by (simp_all add: d_tenant)
    from hp r obtain p0 where p0: "p0 \<in> set rows" "tenant p0 = tenant r" "is_primary p0"
      unfolding has_primary_iff by blast
    show ?thesis
    proof (cases "pk p0 = pk self2")
      case True
      have "pk self \<noteq> None"
      proof
        assume "pk self = None"
        with facts(5) p0(1) True show False by simp
      qed
      with facts(4) True have a: "pk p0 = pk self" by simp
      from tx p0 have b: "tenant p0 = tenant x" and c: "tenant self \<noteq> tenant x" by simp_all
      have "takes_primary_from rows self (tenant x)"
        unfolding takes_primary_from_def
        by (rule bexI[OF _ p0(1)]) (intro conjI a p0(3) b c)
      then show ?thesis by simp
    next
      case False
      from p0(2) tx(2) have "d p0 = p0" by (simp add: d_other)
      with kept[OF p0(1) False] have "p0 \<in> set rows2" by simp
      with p0 tx found[of p0 "tenant x"] show ?thesis by simp
    qed
  qed
qed

text \<open>The exception is exact: a tenant whose primary domain the save takes away has none after it.\<close>

lemma save_takes_primary:
  assumes st: "stored rows" and amo: "at_most_one_primary rows"
    and sv: "DomainMixin_save rows self = (Inr self2, rows2)"
    and tk: "takes_primary_from rows self t"
  shows "primaries rows2 t = []"
proof -
  define p where "p = (is_primary self \<or> \<not> qs_exists rows (domain_list self))"
  define d :: "domain_obj \<Rightarrow> domain_obj" where "d = (\<lambda>r. if p \<and> tenant r = tenant self \<and> is_primary r
                          then r\<lparr>is_primary := False\<rparr> else r)"
  note facts = DomainMixin_save_rows[OF st sv p_def d_def]
  have d_tenant: "tenant (d r) = tenant r" for r unfolding d_def by simp
  have d_primary: "is_primary (d r) \<Longrightarrow> is_primary r" for r
    unfolding d_def by (simp split: if_splits)
  from tk obtain r where r: "r \<in> set rows" "pk r = pk self" "is_primary r" "tenant r = t"
    "tenant self \<noteq> t"
    unfolding takes_primary_from_def by blast
  from st r(1) have "pk r \<noteq> None" by (simp add: stored_def)
  with r(2) facts(4) have same: "pk self2 = pk r" by simp
  have pre: "pk a = pk b"
    if "a \<in> set rows" "b \<in> set rows" "tenant a = tenant b" "is_primary a" "is_primary b"
    for a b
    using amo that unfolding at_most_one_primary_iff[OF st] by blast
  have "\<not> (tenant y = t \<and> is_primary y)" if y: "y \<in> set rows2" for y
  proof
    assume yt: "tenant y = t \<and> is_primary y"
    from y have "y = self2 \<or> (\<exists>r0 \<in> set rows. pk r0 \<noteq> pk self2 \<and> y = d r0)"
      unfolding facts(6) by blast
    then show False
    proof (elim disjE bexE conjE)
      assume "y = self2"
      with facts(2) yt r(5) show False by simp
    next
      fix r0 assume r0: "r0 \<in> set rows" and ne: "pk r0 \<noteq> pk self2" and yr: "y = d r0"
      from yr yt have "tenant r0 = t" "is_primary r0" by (simp_all add: d_tenant d_primary)
      with pre[OF r0 r(1)] r(3,4) have "pk r0 = pk r" by simp
      with ne same show False by simp
    qed
  qed
  then show ?thesis unfolding primaries_def by (simp add: filter_empty_conv)
qed

lemmas domain_save_defs =
  DomainMixin_save_def DomainMixin_save_body_def Model_save_def qs_exists_def
  qs_update_is_primary_def domain_list_def domain_clash_def next_id_def Let_def

lemmas invariant_defs =
  stored_def primary_invariant_def at_most_one_primary_def has_primary_def primaries_def
  takes_primary_from_def

lemma ex_move:
  "DomainMixin_save [dom_a, dom_b] (dom_a\<lparr>tenant := 2\<rparr>) =
     (Inr (dom_a\<lparr>tenant := 2\<rparr>), [dom_a\<lparr>tenant := 2\<rparr>, dom_b])"
  by (simp add: domain_save_defs dom_a_def dom_b_def)

text \<open>
  C4 as stated fails. The table holds the primary domain \<open>a.example.com\<close> and the domain
  \<open>b.example.com\<close> of the tenant 1; saving the first with its tenant set to 2 leaves the
  tenant 1 with one domain and no primary one.
\<close>

theorem save_breaks_invariant_on_move:
  "stored [dom_a, dom_b] \<and> primary_invariant [dom_a, dom_b] \<and>
   \<not> primary_invariant (snd (DomainMixin_save [dom_a, dom_b] (dom_a\<lparr>tenant := 2\<rparr>)))"
  unfolding ex_move by (simp add: invariant_defs dom_a_def dom_b_def)

text \<open>
  C4, amended, for a save that runs alone: the table it reads is the table it writes to,
  with no other save in between. On a stored table that satisfies the invariant, every such
  save (one that raises leaves the table as it was) keeps the table stored, keeps at most
  one primary domain per tenant, and leaves every tenant that has a domain with a primary
  one, except a tenant whose stored primary domain this save takes to another tenant.
\<close>

theorem save_preserves_primary_invariant:
  assumes "stored rows" and "primary_invariant rows"
  shows "stored (snd (DomainMixin_save rows self)) \<and>
         at_most_one_primary (snd (DomainMixin_save rows self)) \<and>
         (\<forall>x \<in> set (snd (DomainMixin_save rows self)).
            primaries (snd (DomainMixin_save rows self)) (tenant x) \<noteq> [] \<or>
            takes_primary_from rows self (tenant x))"
proof (cases "DomainMixin_save rows self")
  case (Pair res rows2)
  from assms have amo: "at_most_one_primary rows" and hp: "has_primary rows"
    by (simp_all add: primary_invariant_def)
  show ?thesis
  proof (cases res)
    case (Inl e)
    with Pair have "rows2 = rows" by (simp add: DomainMixin_save_Inl)
    with Pair assms(1) amo hp show ?thesis by (simp add: has_primary_def)
  next
    case (Inr self2)
    with Pair have sv: "DomainMixin_save rows self = (Inr self2, rows2)" by simp
    have "stored rows2" by (rule DomainMixin_save_rows(1)[OF assms(1) sv refl refl])
    moreover have "at_most_one_primary rows2"
      by (rule save_preserves_at_most_one[OF assms(1) amo sv])
    moreover have "\<forall>x \<in> set rows2.
        primaries rows2 (tenant x) \<noteq> [] \<or> takes_primary_from rows self (tenant x)"
      by (intro ballI) (rule save_keeps_primary[OF assms(1) hp sv])
    ultimately show ?thesis unfolding sv by simp
  qed
qed

lemma ex_new:
  "DomainMixin_save [dom_a, dom_b] dom_new =
     (Inr (dom_new\<lparr>pk := Some 3\<rparr>),
      [dom_a\<lparr>is_primary := False\<rparr>, dom_b, dom_new\<lparr>pk := Some 3\<rparr>])"
  by (simp add: domain_save_defs dom_a_def dom_b_def dom_new_def)

theorem save_preserves_primary_invariant_witness:
  "stored [dom_a, dom_b] \<and> primary_invariant [dom_a, dom_b] \<and>
   stored (snd (DomainMixin_save [dom_a, dom_b] dom_new)) \<and>
   primary_invariant (snd (DomainMixin_save [dom_a, dom_b] dom_new))"
proof -
  have a: "stored [dom_a, dom_b]" by (simp add: invariant_defs dom_a_def dom_b_def)
  have b: "primary_invariant [dom_a, dom_b]" by (simp add: invariant_defs dom_a_def dom_b_def)
  have c: "\<not> takes_primary_from [dom_a, dom_b] dom_new t" for t
    by (simp add: takes_primary_from_def dom_a_def dom_b_def dom_new_def)
  note inst = save_preserves_primary_invariant[OF a b, of dom_new]
  from inst have d: "stored (snd (DomainMixin_save [dom_a, dom_b] dom_new))" by (rule conjunct1)
  from inst c have "primary_invariant (snd (DomainMixin_save [dom_a, dom_b] dom_new))"
    by (simp add: primary_invariant_def has_primary_def)
  with a b d show ?thesis by (intro conjI)
qed

text \<open>
  The source takes no lock on the rows of the tenant, so two saves can both read the table
  before either has written to it. Each of two new records of the tenant 5, saved against
  the same committed table without a domain of that tenant, is stored as primary.
\<close>

lemma both_primary_on_same_table:
  "\<exists>a b. fst (DomainMixin_save [] dom_first) = Inr a \<and>
         fst (DomainMixin_save [] dom_second) = Inr b \<and>
         tenant a = tenant b \<and> domain a \<noteq> domain b \<and> is_primary a \<and> is_primary b"
  by (simp add: domain_save_defs dom_first_def dom_second_def)

lemma next_id_qs_update: "next_id (qs_update_is_primary rows q v) = next_id rows"
proof -
  have "map (\<lambda>r. case pk r of None \<Rightarrow> 0 | Some k \<Rightarrow> k) (qs_update_is_primary rows q v)
        = map (\<lambda>r. case pk r of None \<Rightarrow> 0 | Some k \<Rightarrow> k) rows"
    unfolding qs_update_is_primary_def by (induction rows) auto
  then show ?thesis unfolding next_id_def by (simp only:)
qed

lemma qs_update_domain:
  "r \<in> set (qs_update_is_primary rows q v) \<Longrightarrow> \<exists>r0 \<in> set rows. domain r = domain r0"
  unfolding qs_update_set by auto

text \<open>The save of a new record whose domain is not in use.\<close>

lemma DomainMixin_save_new:
  assumes new: "pk self = None" and free: "\<forall>r \<in> set rows. domain r \<noteq> domain self"
    and p: "p = (is_primary self \<or> \<not> qs_exists rows (domain_list self))"
    and s2: "self2 = self\<lparr>is_primary := p, pk := Some (next_id rows)\<rparr>"
  shows "DomainMixin_save rows self =
           (Inr self2,
            (if p then qs_update_is_primary rows (domain_list self) False else rows) @ [self2])"
proof -
  define rows1 where "rows1 = (if p then qs_update_is_primary rows (domain_list self) False else rows)"
  define self1 where "self1 = self\<lparr>is_primary := p\<rparr>"
  have nid: "next_id rows1 = next_id rows"
    unfolding rows1_def by (simp add: next_id_qs_update)
  have free1: "\<forall>r \<in> set rows1. domain r \<noteq> domain self"
  proof
    fix r assume "r \<in> set rows1"
    then have "\<exists>r0 \<in> set rows. domain r = domain r0"
      unfolding rows1_def by (auto dest: qs_update_domain split: if_splits)
    with free show "domain r \<noteq> domain self" by auto
  qed
  have pk1: "pk self1 = None" "domain self1 = domain self"
    unfolding self1_def using new by simp_all
  have "\<not> (\<exists>r \<in> set rows1. pk r \<noteq> pk self1 \<and> domain_clash r self1)"
    using free1 pk1 by (simp add: domain_clash_def)
  then have "Model_save domain_clash rows1 self1
             = Inr (self1\<lparr>pk := Some (next_id rows1)\<rparr>, rows1 @ [self1\<lparr>pk := Some (next_id rows1)\<rparr>])"
    unfolding Model_save_def using pk1(1) by (simp add: Let_def)
  moreover have "self1\<lparr>pk := Some (next_id rows1)\<rparr> = self2"
    unfolding self1_def s2 nid by simp
  ultimately have ms: "Model_save domain_clash rows1 self1 = Inr (self2, rows1 @ [self2])"
    by simp
  have "DomainMixin_save_body rows self = Inr (self2, rows1, rows1 @ [self2])"
    unfolding DomainMixin_save_body_def Let_def
    using ms unfolding rows1_def self1_def p by simp
  then show ?thesis unfolding DomainMixin_save_def rows1_def by simp
qed

text \<open>
  Inside the transaction the table passes through a state in which neither record is
  primary: the old primary domain is demoted before the new one is written. That state is
  the second component of the body's result; \<open>DomainMixin_save\<close> does not return it.
\<close>

lemma ex_intermediate:
  "DomainMixin_save_body [dom_a, dom_b] dom_new =
     Inr (dom_new\<lparr>pk := Some 3\<rparr>,
          [dom_a\<lparr>is_primary := False\<rparr>, dom_b],
          [dom_a\<lparr>is_primary := False\<rparr>, dom_b, dom_new\<lparr>pk := Some 3\<rparr>])"
  by (simp add: domain_save_defs dom_a_def dom_b_def dom_new_def)

text \<open>
  C5: the tenant of \<open>d2\<close> has the stored primary domain \<open>d1\<close>, and \<open>d2\<close> is a new record
  that asks to be primary and whose domain is not in use. Then the save succeeds, \<open>d2\<close> is
  stored as primary under a new key, and the row of \<open>d1\<close> is stored as not primary. In each
  table another connection can read, the one before the save and the one committed by it,
  exactly one of the two is primary: \<open>d1\<close> by its key, \<open>d2\<close> by its domain.
\<close>

theorem new_primary_replaces_old:
  assumes st: "stored rows"
    and d1: "d1 \<in> set rows" "is_primary d1" "tenant d1 = tenant d2"
    and d2: "pk d2 = None" "is_primary d2"
    and free: "\<forall>r \<in> set rows. domain r \<noteq> domain d2"
  shows "\<exists>k rows2.
           DomainMixin_save rows d2 = (Inr (d2\<lparr>pk := Some k\<rparr>), rows2) \<and>
           d2\<lparr>pk := Some k\<rparr> \<in> set rows2 \<and> is_primary (d2\<lparr>pk := Some k\<rparr>) \<and>
           d1\<lparr>is_primary := False\<rparr> \<in> set rows2 \<and>
           (\<forall>r \<in> set rows2. pk r = pk d1 \<longrightarrow> \<not> is_primary r) \<and>
           (\<forall>s \<in> set (observable_states rows d2).
              (\<exists>r \<in> set s. pk r = pk d1 \<and> is_primary r) \<noteq>
              (\<exists>r \<in> set s. domain r = domain d2 \<and> is_primary r))"
proof -
  define k where "k = next_id rows"
  define self2 where "self2 = d2\<lparr>pk := Some k\<rparr>"
  define rows1 where "rows1 = qs_update_is_primary rows (domain_list d2) False"
  define rows2 where "rows2 = rows1 @ [self2]"
  have s2: "self2 = d2\<lparr>is_primary := is_primary d2 \<or> \<not> qs_exists rows (domain_list d2),
                        pk := Some (next_id rows)\<rparr>"
    unfolding self2_def k_def using d2(2) by simp
  have sv: "DomainMixin_save rows d2 = (Inr self2, rows2)"
    using DomainMixin_save_new[OF d2(1) free refl s2] d2(2)
    unfolding rows2_def rows1_def by simp
  have nn: "\<forall>r \<in> set rows. pk r \<noteq> None" and dist: "distinct (map pk rows)"
    using st by (simp_all add: stored_def)
  have inj: "inj_on pk (set rows)" using dist by (simp add: distinct_map)
  have q: "domain_list d2 r = (tenant r = tenant d2 \<and> is_primary r)" if "r \<in> set rows" for r
    using nn that d2(1) by (simp add: domain_list_def)
  have set1: "set rows1 = (\<lambda>r. if domain_list d2 r then r\<lparr>is_primary := False\<rparr> else r) ` set rows"
    unfolding rows1_def by (rule qs_update_set)
  have fresh: "pk r \<noteq> Some k" if "r \<in> set rows" for r
    unfolding k_def using that by (rule next_id_fresh)
  have in2: "self2 \<in> set rows2" unfolding rows2_def by simp
  have p2: "is_primary self2" "domain self2 = domain d2" "pk self2 = Some k"
    unfolding self2_def using d2(2) by simp_all
  have "d1\<lparr>is_primary := False\<rparr> \<in> set rows1"
    unfolding set1 using d1 q[OF d1(1)] by (intro image_eqI[where x = d1]) simp_all
  then have old_in: "d1\<lparr>is_primary := False\<rparr> \<in> set rows2" unfolding rows2_def by simp
  have old_only: "\<not> is_primary r" if r: "r \<in> set rows2" and pr: "pk r = pk d1" for r
  proof -
    from fresh[OF d1(1)] pr p2(3) have "r \<noteq> self2" by auto
    with r have "r \<in> set rows1" unfolding rows2_def by simp
    then obtain r0 where r0: "r0 \<in> set rows"
      and rr: "r = (if domain_list d2 r0 then r0\<lparr>is_primary := False\<rparr> else r0)"
      unfolding set1 by auto
    from rr have "pk r = pk r0" by (simp split: if_splits)
    with pr inj r0 d1(1) have "r0 = d1" by (simp add: inj_on_def)
    with rr q[OF d1(1)] d1 show ?thesis by simp
  qed
  have before: "(\<exists>r \<in> set rows. pk r = pk d1 \<and> is_primary r)"
    "\<not> (\<exists>r \<in> set rows. domain r = domain d2 \<and> is_primary r)"
    using d1 free by auto
  have after: "\<not> (\<exists>r \<in> set rows2. pk r = pk d1 \<and> is_primary r)"
    "(\<exists>r \<in> set rows2. domain r = domain d2 \<and> is_primary r)"
    using old_only in2 p2 by auto
  have obs: "observable_states rows d2 = [rows, rows2]"
    unfolding observable_states_def sv by simp
  have b: "(\<exists>r \<in> set rows. pk r = pk d1 \<and> is_primary r) \<noteq>
           (\<exists>r \<in> set rows. domain r = domain d2 \<and> is_primary r)"
    using before by blast
  have a: "(\<exists>r \<in> set rows2. pk r = pk d1 \<and> is_primary r) \<noteq>
           (\<exists>r \<in> set rows2. domain r = domain d2 \<and> is_primary r)"
    using after by blast
  have "\<forall>s \<in> set (observable_states rows d2).
          (\<exists>r \<in> set s. pk r = pk d1 \<and> is_primary r) \<noteq>
          (\<exists>r \<in> set s. domain r = domain d2 \<and> is_primary r)"
  proof
    fix s assume "s \<in> set (observable_states rows d2)"
    then have "s = rows \<or> s = rows2" unfolding obs by simp
    then show "(\<exists>r \<in> set s. pk r = pk d1 \<and> is_primary r) \<noteq>
               (\<exists>r \<in> set s. domain r = domain d2 \<and> is_primary r)"
      using a b by blast
  qed
  then have "DomainMixin_save rows d2 = (Inr self2, rows2) \<and>
           self2 \<in> set rows2 \<and> is_primary self2 \<and>
           d1\<lparr>is_primary := False\<rparr> \<in> set rows2 \<and>
           (\<forall>r \<in> set rows2. pk r = pk d1 \<longrightarrow> \<not> is_primary r) \<and>
           (\<forall>s \<in> set (observable_states rows d2).
              (\<exists>r \<in> set s. pk r = pk d1 \<and> is_primary r) \<noteq>
              (\<exists>r \<in> set s. domain r = domain d2 \<and> is_primary r))"
    using sv in2 p2(1) old_in old_only by (intro conjI ballI impI) simp_all
  then show ?thesis
    unfolding self2_def by (intro exI[where x = k] exI[where x = rows2])
qed

theorem new_primary_replaces_old_witness:
  "stored [dom_a, dom_b] \<and> dom_a \<in> set [dom_a, dom_b] \<and> is_primary dom_a \<and>
   tenant dom_a = tenant dom_new \<and> pk dom_new = None \<and> is_primary dom_new \<and>
   DomainMixin_save [dom_a, dom_b] dom_new =
     (Inr (dom_new\<lparr>pk := Some 3\<rparr>),
      [dom_a\<lparr>is_primary := False\<rparr>, dom_b, dom_new\<lparr>pk := Some 3\<rparr>]) \<and>
   (\<exists>k rows2.
      DomainMixin_save [dom_a, dom_b] dom_new = (Inr (dom_new\<lparr>pk := Some k\<rparr>), rows2) \<and>
      dom_a\<lparr>is_primary := False\<rparr> \<in> set rows2)"
proof -
  have a: "stored [dom_a, dom_b]" by (simp add: invariant_defs dom_a_def dom_b_def)
  have b: "dom_a \<in> set [dom_a, dom_b]" by simp
  have c: "is_primary dom_a" by (simp add: dom_a_def)
  have d: "tenant dom_a = tenant dom_new" by (simp add: dom_a_def dom_new_def)
  have e: "pk dom_new = None" by (simp add: dom_new_def)
  have f: "is_primary dom_new" by (simp add: dom_new_def)
  have g: "\<forall>r \<in> set [dom_a, dom_b]. domain r \<noteq> domain dom_new"
    by (simp add: dom_a_def dom_b_def dom_new_def)
  from new_primary_replaces_old[OF a b c d e f g]
  obtain k rows2 where
    s: "DomainMixin_save [dom_a, dom_b] dom_new = (Inr (dom_new\<lparr>pk := Some k\<rparr>), rows2)"
    and i: "dom_a\<lparr>is_primary := False\<rparr> \<in> set rows2"
    by (elim exE conjE)
  have h: "\<exists>k rows2.
      DomainMixin_save [dom_a, dom_b] dom_new = (Inr (dom_new\<lparr>pk := Some k\<rparr>), rows2) \<and>
      dom_a\<lparr>is_primary := False\<rparr> \<in> set rows2"
    by (rule exI[where x = k], rule exI[where x = rows2], rule conjI[OF s i])
  from a b c d e f ex_new h show ?thesis by (intro conjI)
qed

text \<open>
  C6: a save that succeeds stores the record with the flag
  \<open>is_primary self \<or> no other primary domain of the tenant is stored\<close>; and the save of a
  new record whose tenant has no domain and whose domain is not in use succeeds and stores
  the record as primary, whatever flag was asked for.
\<close>

theorem first_domain_forced_primary:
  "(DomainMixin_save rows self = (Inr self2, rows2) \<longrightarrow>
      is_primary self2 =
        (is_primary self \<or>
         \<not> (\<exists>r \<in> set rows. tenant r = tenant self \<and> is_primary r \<and> pk r \<noteq> pk self)) \<and>
      self2 \<in> set rows2) \<and>
   (pk self = None \<and> (\<forall>r \<in> set rows. tenant r \<noteq> tenant self) \<and>
    (\<forall>r \<in> set rows. domain r \<noteq> domain self) \<longrightarrow>
      DomainMixin_save rows self =
        (Inr (self\<lparr>is_primary := True, pk := Some (next_id rows)\<rparr>),
         rows @ [self\<lparr>is_primary := True, pk := Some (next_id rows)\<rparr>]))"
proof (intro conjI impI)
  assume sv: "DomainMixin_save rows self = (Inr self2, rows2)"
  note ms = DomainMixin_save_Inr[OF sv]
  from Model_save_self[OF ms] obtain k where
    "self2 = self\<lparr>is_primary := is_primary self \<or> \<not> qs_exists rows (domain_list self),
                   pk := Some k\<rparr>"
    by (elim exE conjE)
  then have "is_primary self2 = (is_primary self \<or> \<not> qs_exists rows (domain_list self))"
    by simp
  also have "qs_exists rows (domain_list self) =
             (\<exists>r \<in> set rows. tenant r = tenant self \<and> is_primary r \<and> pk r \<noteq> pk self)"
    unfolding qs_exists_def domain_list_def by (auto simp add: filter_empty_conv)
  finally show "is_primary self2 =
        (is_primary self \<or>
         \<not> (\<exists>r \<in> set rows. tenant r = tenant self \<and> is_primary r \<and> pk r \<noteq> pk self))" .
  from Model_save_set[OF ms] show "self2 \<in> set rows2" by simp
next
  assume h: "pk self = None \<and> (\<forall>r \<in> set rows. tenant r \<noteq> tenant self) \<and>
    (\<forall>r \<in> set rows. domain r \<noteq> domain self)"
  then have new: "pk self = None" and none: "\<forall>r \<in> set rows. tenant r \<noteq> tenant self"
    and free: "\<forall>r \<in> set rows. domain r \<noteq> domain self" by simp_all
  from none have ne: "\<not> qs_exists rows (domain_list self)"
    unfolding qs_exists_def domain_list_def by (simp add: filter_empty_conv)
  from none have same: "qs_update_is_primary rows (domain_list self) False = rows"
    unfolding qs_update_is_primary_def domain_list_def by (simp add: map_idI)
  have p: "True = (is_primary self \<or> \<not> qs_exists rows (domain_list self))"
    using ne by simp
  from DomainMixin_save_new[OF new free p refl] same
  show "DomainMixin_save rows self =
        (Inr (self\<lparr>is_primary := True, pk := Some (next_id rows)\<rparr>),
         rows @ [self\<lparr>is_primary := True, pk := Some (next_id rows)\<rparr>])"
    by simp
qed

theorem first_domain_forced_primary_witness:
  "pk dom_first = None \<and> \<not> is_primary dom_first \<and>
   DomainMixin_save [] dom_first =
     (Inr (dom_first\<lparr>is_primary := True, pk := Some 1\<rparr>),
      [dom_first\<lparr>is_primary := True, pk := Some 1\<rparr>])"
proof -
  have a: "pk dom_first = None" "\<not> is_primary dom_first" by (simp_all add: dom_first_def)
  have "pk dom_first = None \<and> (\<forall>r \<in> set ([] :: domain_obj list). tenant r \<noteq> tenant dom_first) \<and>
        (\<forall>r \<in> set ([] :: domain_obj list). domain r \<noteq> domain dom_first)"
    using a by simp
  then have "DomainMixin_save [] dom_first =
        (Inr (dom_first\<lparr>is_primary := True, pk := Some (next_id ([] :: domain_obj list))\<rparr>),
         [] @ [dom_first\<lparr>is_primary := True, pk := Some (next_id ([] :: domain_obj list))\<rparr>])"
    by (rule first_domain_forced_primary[of "[]" dom_first, THEN conjunct2, THEN mp])
  moreover have "next_id ([] :: domain_obj list) = 1" by (simp add: next_id_def)
  ultimately show ?thesis using a by simp
qed

end
